theory Spec2Isabelle
  imports Complex_Main
begin

section \<open>Values, exceptions and the outside world\<close>

text \<open>
  The program is \<^verbatim>\<open>estimate_time.py\<close>: a sequential batch driver that, for every row of
  an input CSV, reads a cached source file, asks a local inference service
  \<^verbatim>\<open>ask_repeats\<close> times for an estimate in seconds and writes one output line per row.

  Strings are \<^typ>\<open>string\<close>; a character stands for a code point below 256.
\<close>

text \<open>
  A Python float as \<^verbatim>\<open>json.loads\<close> can return it: \<open>Finite m e\<close> is the value
  \<open>m * 2 ^ e\<close>; \<^verbatim>\<open>NaN\<close>, \<^verbatim>\<open>Infinity\<close> and \<^verbatim>\<open>-Infinity\<close> are accepted by
  \<^verbatim>\<open>json.loads\<close> as well.
\<close>

datatype pyfloat = Finite int int | PosInf | NegInf | NaN

text \<open>
  The Python value of a decoded JSON text. A \<^verbatim>\<open>dict\<close> is an association list that is
  looked up with \<^const>\<open>map_of\<close>.
\<close>

datatype json =
    JNull
  | JBool bool
  | JInt int
  | JFloat pyfloat
  | JString string
  | JArray "json list"
  | JObject "(string \<times> json) list"

text \<open>
  The subclasses of \<^verbatim>\<open>Exception\<close> that the code can meet. \<^verbatim>\<open>RequestException\<close> stands for
  what \<^verbatim>\<open>session.post\<close> raises (connection error, timeout), \<^verbatim>\<open>HTTPError\<close> for
  \<^verbatim>\<open>raise_for_status\<close>.
\<close>

datatype exn =
    KeyError
  | AttributeError
  | TypeError
  | ValueError
  | OverflowError
  | JSONDecodeError
  | RequestException
  | HTTPError
  | OSError

text \<open>
  What propagates out of a function: an \<^verbatim>\<open>Exception\<close>, caught by \<^verbatim>\<open>except Exception\<close>, or
  \<^verbatim>\<open>SystemExit\<close> (raised by \<^verbatim>\<open>sys.exit\<close>), which is not an \<^verbatim>\<open>Exception\<close> and passes
  through such a handler.
\<close>

datatype raised = Exc exn | SystemExit int

text \<open>
  A value held by a CSV row or handed to \<^verbatim>\<open>writer.writerow\<close>. \<^verbatim>\<open>csv.DictReader\<close> fills the
  missing fields of a short line with \<^verbatim>\<open>None\<close>.
\<close>

datatype pyval = PStr string | PNone | PInt int

type_synonym row = "string \<Rightarrow> pyval option"

type_synonym csv_line = "pyval list"

text \<open>\<open>Child d n\<close> is \<^verbatim>\<open>d / n\<close> of \<^verbatim>\<open>pathlib\<close>.\<close>

datatype path = Path string | Child path string

text \<open>
  The \<^verbatim>\<open>payload\<close> dictionary of lines 57 to 68, and the call
  \<^verbatim>\<open>session.post(OLLAMA_URL, json=payload, timeout=timeout)\<close>.
\<close>

record payload =
  pl_model :: string
  pl_prompt :: string
  pl_stream :: bool
  pl_format :: json

record request =
  req_url :: string
  req_json :: payload
  req_timeout :: int

text \<open>\<^verbatim>\<open>session.post\<close> raises or returns a response with a status code and a body.\<close>

datatype post_result = PostRaises | Response int string

text \<open>
  The collaborators the program does not implement: the hash function, the file system as
  the program reads it, the inference service (its answer to the \<open>k\<close>-th request of the
  run) and the library parsers.
\<close>

record env =
  sha256_hex :: "string \<Rightarrow> string"
  read_text :: "path \<Rightarrow> string option"
  csv_dict_rows :: "path \<Rightarrow> row list option"
  open_w :: "path \<Rightarrow> bool"
  post :: "nat \<Rightarrow> request \<Rightarrow> post_result"
  json_loads :: "string \<Rightarrow> json option"
  int_of_str :: "string \<Rightarrow> int option"

text \<open>
  The effects of a run: the requests sent to the inference service, the source files
  opened, and the content of the file at the output path, oldest first.
\<close>

record world =
  requests :: "request list"
  reads :: "path list"
  out_file :: "csv_line list"

section \<open>The program\<close>

subsection \<open>Prompt\<close>

definition PROMPT_head :: string where
  \<open>PROMPT_head =
    ''You are simulating a junior developer who has:\<newline>'' @
    ''- **Basic knowledge of Java (syntax, classes, functions, control structures, basic OOP)**\<newline>'' @
    ''- **No prior knowledge of Apache Hive or its libraries**\<newline>'' @
    ''\<newline>'' @
    ''I will give you a piece of Java code that uses Apache Hive.\<newline>'' @
    ''Estimate, as precisely as possible, how many **seconds** this junior developer would need to fully understand the code.\<newline>'' @
    ''"Understanding" means:\<newline>'' @
    ''- They can explain what the code does overall\<newline>'' @
    ''- They can follow what each class/method does\<newline>'' @
    ''\<newline>'' @
    ''Here is the code:\<newline>'' @
    ''```java\<newline>''\<close>

definition PROMPT_tail :: string where
  \<open>PROMPT_tail =
    ''\<newline>'' @
    ''```\<newline>'' @
    ''\<newline>'' @
    ''DO NOT GREET, THINK, OR REASON. NO OTHER TEXT.\<newline>'' @
    ''Return **only** a json object. Do not output anything else.''\<close>

text \<open>
  \<^verbatim>\<open>PROMPT.format(code=code)\<close>: the template has the one replacement field \<^verbatim>\<open>{code}\<close>,
  between \<^const>\<open>PROMPT_head\<close> and \<^const>\<open>PROMPT_tail\<close>, and no other brace.
\<close>

definition PROMPT_format :: "string \<Rightarrow> string" where
  "PROMPT_format code = PROMPT_head @ code @ PROMPT_tail"

subsection \<open>Library behaviour\<close>

text \<open>\<^verbatim>\<open>str.isspace\<close> on the code points below 256.\<close>

definition is_space :: "char \<Rightarrow> bool" where
  "is_space c \<longleftrightarrow>
     (let n = (of_char c :: nat)
      in (9 \<le> n \<and> n \<le> 13) \<or> (28 \<le> n \<and> n \<le> 32) \<or> n = 133 \<or> n = 160)"

definition strip :: "string \<Rightarrow> string" where
  "strip s = rev (dropWhile is_space (rev (dropWhile is_space s)))"

text \<open>\<^verbatim>\<open>v[key]\<close> for a string key: only a \<^verbatim>\<open>dict\<close> can be subscripted with it.\<close>

fun subscript :: "json \<Rightarrow> string \<Rightarrow> exn + json" where
  "subscript (JObject kvs) key =
     (case map_of kvs key of None \<Rightarrow> Inl KeyError | Some v \<Rightarrow> Inr v)"
| "subscript _ key = Inl TypeError"

text \<open>Truncation towards zero of \<open>m * 2 ^ e\<close>.\<close>

definition trunc_float :: "int \<Rightarrow> int \<Rightarrow> int" where
  "trunc_float m e =
     (if 0 \<le> e then m * 2 ^ nat e
      else if 0 \<le> m then m div 2 ^ nat (- e)
      else - ((- m) div 2 ^ nat (- e)))"

text \<open>
  \<^verbatim>\<open>int(v)\<close>: an \<^verbatim>\<open>int\<close> is returned as it is, a \<^verbatim>\<open>bool\<close> is 0 or 1, a finite \<^verbatim>\<open>float\<close>
  is truncated, a \<^verbatim>\<open>str\<close> is parsed; everything else raises.
\<close>

fun py_int :: "env \<Rightarrow> json \<Rightarrow> exn + int" where
  "py_int E (JInt n) = Inr n"
| "py_int E (JBool b) = Inr (if b then 1 else 0)"
| "py_int E (JFloat (Finite m e)) = Inr (trunc_float m e)"
| "py_int E (JFloat NaN) = Inl ValueError"
| "py_int E (JFloat PosInf) = Inl OverflowError"
| "py_int E (JFloat NegInf) = Inl OverflowError"
| "py_int E (JString s) =
     (case int_of_str E s of None \<Rightarrow> Inl ValueError | Some n \<Rightarrow> Inr n)"
| "py_int E JNull = Inl TypeError"
| "py_int E (JArray xs) = Inl TypeError"
| "py_int E (JObject kvs) = Inl TypeError"

subsection \<open>\<^verbatim>\<open>read_source\<close>\<close>

text \<open>Any failure of the read is logged and ends the process with \<^verbatim>\<open>sys.exit(1)\<close>.\<close>

definition read_source :: "env \<Rightarrow> path \<Rightarrow> raised + string" where
  "read_source E p =
     (case read_text E p of None \<Rightarrow> Inl (SystemExit 1) | Some text \<Rightarrow> Inr text)"

subsection \<open>\<^verbatim>\<open>read_input_csv\<close>\<close>

definition read_input_csv :: "env \<Rightarrow> path \<Rightarrow> raised + row list" where
  "read_input_csv E p =
     (case csv_dict_rows E p of None \<Rightarrow> Inl (SystemExit 1) | Some rows \<Rightarrow> Inr rows)"

subsection \<open>\<^verbatim>\<open>ask_ollama_via_http\<close>\<close>

definition OLLAMA_URL :: string where
  "OLLAMA_URL = ''http://localhost:11434/api/generate''"

definition build_request :: "string \<Rightarrow> string \<Rightarrow> int \<Rightarrow> request" where
  "build_request prompt model timeout =
     \<lparr>req_url = OLLAMA_URL,
      req_json =
        \<lparr>pl_model = model,
         pl_prompt = prompt,
         pl_stream = False,
         pl_format =
           JObject
             [(''type'', JString ''object''),
              (''properties'', JObject [(''seconds'', JObject [(''type'', JString ''integer'')])]),
              (''required'', JArray [JString ''seconds''])]\<rparr>,
      req_timeout = timeout\<rparr>"

text \<open>
  Lines 69 to 71, given what \<^verbatim>\<open>session.post\<close> did. \<^verbatim>\<open>raise_for_status\<close> raises for a
  status from 400 to 599; \<^verbatim>\<open>resp.json()["response"].strip()\<close> raises when the body is
  not JSON, is not an object with the key, or the value is not a string.
\<close>

definition response_of :: "env \<Rightarrow> post_result \<Rightarrow> exn + string" where
  "response_of E resp =
     (case resp of
        PostRaises \<Rightarrow> Inl RequestException
      | Response status body \<Rightarrow>
          if 400 \<le> status \<and> status < 600 then Inl HTTPError
          else (case json_loads E body of
                  None \<Rightarrow> Inl JSONDecodeError
                | Some j \<Rightarrow>
                    (case subscript j ''response'' of
                       Inl e \<Rightarrow> Inl e
                     | Inr (JString s) \<Rightarrow> Inr (strip s)
                     | Inr _ \<Rightarrow> Inl AttributeError)))"

text \<open>
  The request is recorded in the world; the service answers the request with the number
  of requests sent before it.
\<close>

definition ask_ollama_via_http ::
  "env \<Rightarrow> string \<Rightarrow> string \<Rightarrow> int \<Rightarrow> world \<Rightarrow> world \<times> (exn + string)"
where
  "ask_ollama_via_http E prompt model timeout w =
     (let req = build_request prompt model timeout
      in (w\<lparr>requests := requests w @ [req]\<rparr>,
          response_of E (post E (length (requests w)) req)))"

subsection \<open>\<^verbatim>\<open>process_row\<close>\<close>

text \<open>
  Lines 88 and 89: \<^verbatim>\<open>json.loads(output_raw.strip())\<close>, then \<^verbatim>\<open>int(output["seconds"])\<close>.
\<close>

definition parse_seconds :: "env \<Rightarrow> string \<Rightarrow> exn + int" where
  "parse_seconds E output_raw =
     (case json_loads E (strip output_raw) of
        None \<Rightarrow> Inl JSONDecodeError
      | Some output \<Rightarrow>
          (case subscript output ''seconds'' of
             Inl e \<Rightarrow> Inl e
           | Inr v \<Rightarrow> py_int E v))"

text \<open>
  One iteration of the loop of lines 85 to 92: any \<^verbatim>\<open>Exception\<close> of the \<^verbatim>\<open>try\<close> body
  is logged and \<open>-1\<close> is appended. The result is the new world and the value appended to
  \<^verbatim>\<open>seconds\<close>.
\<close>

definition attempt :: "env \<Rightarrow> string \<Rightarrow> string \<Rightarrow> int \<Rightarrow> world \<Rightarrow> world \<times> int" where
  "attempt E code model timeout w =
     (case ask_ollama_via_http E (PROMPT_format code) model timeout w of
        (w', Inl e) \<Rightarrow> (w', - 1)
      | (w', Inr output_raw) \<Rightarrow>
          (case parse_seconds E output_raw of
             Inl e \<Rightarrow> (w', - 1)
           | Inr n \<Rightarrow> (w', n)))"

text \<open>
  \<^verbatim>\<open>for _ in range(ask_repeats)\<close>, the first argument counting the iterations left.
\<close>

fun ask_loop ::
  "nat \<Rightarrow> env \<Rightarrow> string \<Rightarrow> string \<Rightarrow> int \<Rightarrow> world \<Rightarrow> int list \<Rightarrow> world \<times> int list"
where
  "ask_loop 0 E code model timeout w seconds = (w, seconds)"
| "ask_loop (Suc n) E code model timeout w seconds =
     (case attempt E code model timeout w of
        (w', v) \<Rightarrow> ask_loop n E code model timeout w' (seconds @ [v]))"

text \<open>
  \<^verbatim>\<open>cache_dir / f"{file_hash}.txt"\<close> with the hash of line 82.
\<close>

definition cache_file :: "env \<Rightarrow> path \<Rightarrow> string \<Rightarrow> path" where
  "cache_file E cache_dir file_path = Child cache_dir (sha256_hex E file_path @ ''.txt'')"

text \<open>
  \<^verbatim>\<open>range(ask_repeats)\<close> has \<^verbatim>\<open>max(0, ask_repeats)\<close> elements, which is \<open>nat ask_repeats\<close>.
  \<^verbatim>\<open>row["file_path"]\<close> raises \<^verbatim>\<open>KeyError\<close> without the key, and \<^verbatim>\<open>.encode()\<close> raises
  \<^verbatim>\<open>AttributeError\<close> on a value that is not a string.
\<close>

definition process_row ::
  "env \<Rightarrow> row \<Rightarrow> string \<Rightarrow> int \<Rightarrow> path \<Rightarrow> int \<Rightarrow> world \<Rightarrow> world \<times> (raised + int list)"
where
  "process_row E row model timeout cache_dir ask_repeats w =
     (case row ''file_path'' of
        None \<Rightarrow> (w, Inl (Exc KeyError))
      | Some (PStr file_path) \<Rightarrow>
          (let p = cache_file E cache_dir file_path;
               w1 = w\<lparr>reads := reads w @ [p]\<rparr>
           in case read_source E p of
                Inl x \<Rightarrow> (w1, Inl x)
              | Inr code \<Rightarrow>
                  (case ask_loop (nat ask_repeats) E code model timeout w1 [] of
                     (w2, seconds) \<Rightarrow> (w2, Inr seconds)))
      | Some _ \<Rightarrow> (w, Inl (Exc AttributeError)))"

subsection \<open>\<^verbatim>\<open>process_rows\<close>\<close>

text \<open>The decimal digits of a natural number, as \<^verbatim>\<open>f"{i}"\<close> renders it.\<close>

fun str_nat :: "nat \<Rightarrow> string" where
  "str_nat n =
     (if n < 10 then [char_of (48 + n)]
      else str_nat (n div 10) @ [char_of (48 + n mod 10)])"

definition header :: "int \<Rightarrow> csv_line" where
  "header ask_repeats =
     [PStr ''file_path'', PStr ''our_seconds''] @
     map (\<lambda>i. PStr (''llm_seconds_'' @ str_nat i)) [0..<nat ask_repeats]"

text \<open>
  How the run ends: \<open>None\<close> when the function returns, otherwise what propagates to the
  top level. An exception that is not caught ends the interpreter with status 1, as
  \<^verbatim>\<open>sys.exit(1)\<close> does.
\<close>

fun exit_status :: "raised option \<Rightarrow> int" where
  "exit_status None = 0"
| "exit_status (Some (SystemExit n)) = n"
| "exit_status (Some (Exc e)) = 1"

text \<open>
  The loop of lines 111 to 128. Line 112 is outside the \<^verbatim>\<open>try\<close>, so its \<^verbatim>\<open>KeyError\<close>
  is not caught. Inside, an \<^verbatim>\<open>Exception\<close> (from \<^verbatim>\<open>process_row\<close> or from
  \<^verbatim>\<open>row["measures"]\<close>) leads to \<^verbatim>\<open>sys.exit(1)\<close>, and the \<^verbatim>\<open>SystemExit\<close> of
  \<^verbatim>\<open>read_source\<close> passes through. The file is closed, and so flushed, by the
  \<^verbatim>\<open>with\<close> statement on every way out.

  Left out of the model: the log messages, which no result depends on; a failure of
  \<^verbatim>\<open>writer.writerow\<close> itself; and the operator's interrupt, a signal that can arrive
  between any two steps and whose handler (lines 123 to 125) ends with \<^verbatim>\<open>sys.exit(1)\<close>
  as the handler of \<^verbatim>\<open>Exception\<close> does.
\<close>

fun rows_loop ::
  "env \<Rightarrow> string \<Rightarrow> int \<Rightarrow> path \<Rightarrow> int \<Rightarrow> row list \<Rightarrow> world \<Rightarrow> world \<times> raised option"
where
  "rows_loop E model timeout cache_dir ask_repeats [] w = (w, None)"
| "rows_loop E model timeout cache_dir ask_repeats (row # rest) w =
     (case row ''file_path'' of
        None \<Rightarrow> (w, Some (Exc KeyError))
      | Some file_path \<Rightarrow>
          (case process_row E row model timeout cache_dir ask_repeats w of
             (w1, Inl (Exc e)) \<Rightarrow> (w1, Some (SystemExit 1))
           | (w1, Inl (SystemExit n)) \<Rightarrow> (w1, Some (SystemExit n))
           | (w1, Inr seconds) \<Rightarrow>
               (case row ''measures'' of
                  None \<Rightarrow> (w1, Some (SystemExit 1))
                | Some measures_val \<Rightarrow>
                    rows_loop E model timeout cache_dir ask_repeats rest
                      (w1\<lparr>out_file := out_file w1 @
                            [[file_path, measures_val] @ map PInt seconds]\<rparr>))))"

text \<open>
  The input is read first; a failure there exits before the output is opened.
  \<^verbatim>\<open>open(output_csv, "w")\<close> raises \<^verbatim>\<open>OSError\<close>, which nothing catches, or empties the
  file; then the header is written.
\<close>

definition process_rows ::
  "env \<Rightarrow> path \<Rightarrow> path \<Rightarrow> string \<Rightarrow> int \<Rightarrow> path \<Rightarrow> int \<Rightarrow> world \<Rightarrow> world \<times> raised option"
where
  "process_rows E input_csv output_csv model timeout cache_dir ask_repeats w =
     (case read_input_csv E input_csv of
        Inl x \<Rightarrow> (w, Some x)
      | Inr input_rows \<Rightarrow>
          if \<not> open_w E output_csv then (w, Some (Exc OSError))
          else
            (let w1 = w\<lparr>out_file := []\<rparr>;
                 w2 = w1\<lparr>out_file := out_file w1 @ [header ask_repeats]\<rparr>
             in rows_loop E model timeout cache_dir ask_repeats input_rows w2))"

section \<open>A concrete environment\<close>

text \<open>
  An environment for evaluating the program on concrete inputs. The cache holds the
  source of \<^verbatim>\<open>Foo.java\<close> and nothing for \<^verbatim>\<open>Bar.java\<close>; the hash agrees with SHA-256 on
  these two paths; the parsers agree with \<^verbatim>\<open>json.loads\<close> and \<^verbatim>\<open>int\<close> on the texts listed.
  The inference service answers the \<open>k\<close>-th request with the \<open>k\<close>-th entry of a script
  and refuses the connection afterwards.
\<close>

definition backslash :: string where
  "backslash = [CHR 0x5C]"

text \<open>The body \<^verbatim>\<open>{"response": "{\"seconds\": n}"}\<close> for the digits \<open>n\<close>.\<close>

definition seconds_body :: "string \<Rightarrow> string" where
  \<open>seconds_body n =
     ''{"response": "{'' @ backslash @ ''"seconds'' @ backslash @ ''": '' @ n @ ''}"}''\<close>

definition not_json_body :: string where
  \<open>not_json_body = ''{"response": "not json"}''\<close>

definition demo_json :: "(string \<times> json) list" where
  \<open>demo_json =
     [(seconds_body ''10'', JObject [(''response'', JString ''{"seconds": 10}'')]),
      (seconds_body ''8'', JObject [(''response'', JString ''{"seconds": 8}'')]),
      (seconds_body ''-5'', JObject [(''response'', JString ''{"seconds": -5}'')]),
      (seconds_body ''3.5'', JObject [(''response'', JString ''{"seconds": 3.5}'')]),
      (not_json_body, JObject [(''response'', JString ''not json'')]),
      (''{"seconds": 10}'', JObject [(''seconds'', JInt 10)]),
      (''{"seconds": 8}'', JObject [(''seconds'', JInt 8)]),
      (''{"seconds": -5}'', JObject [(''seconds'', JInt (- 5))]),
      (''{"seconds": 3.5}'', JObject [(''seconds'', JFloat (Finite 7 (- 1)))])]\<close>

definition foo_source :: string where
  "foo_source = ''class Foo { int size() { return 0; } }''"

definition demo_sha256 :: "string \<Rightarrow> string" where
  "demo_sha256 s =
     (if s = ''Foo.java''
      then ''d85722b36e339bb4254137d0747507d93a3d39affc81f4d92fa20196d26d66c2''
      else if s = ''Bar.java''
      then ''c02241d085a5c2fd5b990a7817e74f010f259a33e28b380296f4eb0d9707028d''
      else [])"

definition demo_cache :: "path \<Rightarrow> string option" where
  "demo_cache p =
     (if p = Child (Path ''code_cache'')
               ''d85722b36e339bb4254137d0747507d93a3d39affc81f4d92fa20196d26d66c2.txt''
      then Some foo_source else None)"

definition row_foo :: row where
  "row_foo = [''file_path'' \<mapsto> PStr ''Foo.java'', ''measures'' \<mapsto> PStr ''42'']"

definition row_bar :: row where
  "row_bar = [''file_path'' \<mapsto> PStr ''Bar.java'', ''measures'' \<mapsto> PStr ''17'']"

definition row_no_measures :: row where
  "row_no_measures = [''file_path'' \<mapsto> PStr ''Foo.java'']"

definition demo_input :: "path \<Rightarrow> row list option" where
  "demo_input p =
     (if p = Path ''one.csv'' then Some [row_foo]
      else if p = Path ''two.csv'' then Some [row_foo, row_bar]
      else if p = Path ''twice.csv'' then Some [row_foo, row_foo]
      else if p = Path ''no_measures.csv'' then Some [row_foo, row_no_measures]
      else None)"

definition demo :: "post_result list \<Rightarrow> env" where
  "demo script =
     \<lparr>sha256_hex = demo_sha256,
      read_text = demo_cache,
      csv_dict_rows = demo_input,
      open_w = (\<lambda>p. True),
      post = (\<lambda>k req. if k < length script then script ! k else PostRaises),
      json_loads = map_of demo_json,
      int_of_str = map_of [(''12'', 12)]\<rparr>"

definition w0 :: world where
  "w0 = \<lparr>requests = [], reads = [], out_file = []\<rparr>"

text \<open>
  Two estimates, then a refused connection (scenario A of the specification).
\<close>

definition scenario_A :: "post_result list" where
  "scenario_A =
     [Response 200 (seconds_body ''10''), Response 200 (seconds_body ''8''), PostRaises]"


text \<open>The service answers with an estimate that is not an integer.\<close>

definition scenario_float :: "post_result list" where
  "scenario_float = [Response 200 (seconds_body ''3.5'')]"

text \<open>The service answers with a text that is not JSON (scenario C of the specification).\<close>

definition scenario_C :: "post_result list" where
  "scenario_C = [Response 200 not_json_body]"

text \<open>A world whose output file holds a line of an earlier run.\<close>

definition w_stale :: world where
  "w_stale = w0\<lparr>out_file := [[PStr ''stale'']]\<rparr>"

section \<open>Closed forms of the loops\<close>

text \<open>The value that the attempt answering request \<open>k\<close> appends to \<^verbatim>\<open>seconds\<close>.\<close>

definition attempt_value :: "env \<Rightarrow> nat \<Rightarrow> request \<Rightarrow> int" where
  "attempt_value E k req =
     (case response_of E (post E k req) of
        Inl e \<Rightarrow> - 1
      | Inr output_raw \<Rightarrow>
          (case parse_seconds E output_raw of Inl e \<Rightarrow> - 1 | Inr n \<Rightarrow> n))"

lemma attempt_eq:
  "attempt E code model timeout w =
     (w\<lparr>requests := requests w @ [build_request (PROMPT_format code) model timeout]\<rparr>,
      attempt_value E (length (requests w)) (build_request (PROMPT_format code) model timeout))"
  by (simp add: attempt_def ask_ollama_via_http_def attempt_value_def Let_def
      split: sum.splits)

lemma ask_loop_eq:
  "ask_loop n E code model timeout w acc =
     (w\<lparr>requests := requests w @ replicate n (build_request (PROMPT_format code) model timeout)\<rparr>,
      acc @ map (\<lambda>i. attempt_value E (length (requests w) + i)
                     (build_request (PROMPT_format code) model timeout)) [0..<n])"
proof (induction n arbitrary: w acc)
  case 0
  show ?case by simp
next
  case (Suc n)
  show ?case
    by (simp add: attempt_eq Suc.IH map_upt_Suc replicate_app_Cons_same del: upt_Suc)
qed

lemma process_row_ok:
  assumes "row ''file_path'' = Some (PStr fp)"
    and "read_text E (cache_file E cache_dir fp) = Some code"
  shows "process_row E row model timeout cache_dir ask_repeats w =
     (w\<lparr>reads := reads w @ [cache_file E cache_dir fp],
        requests := requests w @
          replicate (nat ask_repeats) (build_request (PROMPT_format code) model timeout)\<rparr>,
      Inr (map (\<lambda>i. attempt_value E (length (requests w) + i)
                  (build_request (PROMPT_format code) model timeout)) [0..<nat ask_repeats]))"
  using assms by (simp add: process_row_def read_source_def ask_loop_eq)

lemma process_row_unreadable:
  assumes "row ''file_path'' = Some (PStr fp)"
    and "read_text E (cache_file E cache_dir fp) = None"
  shows "process_row E row model timeout cache_dir ask_repeats w =
     (w\<lparr>reads := reads w @ [cache_file E cache_dir fp]\<rparr>, Inl (SystemExit 1))"
  using assms by (simp add: process_row_def read_source_def)

lemma process_row_out_file:
  "process_row E row model timeout cache_dir ask_repeats w = (w', r) \<Longrightarrow> out_file w' = out_file w"
  by (auto simp: process_row_def read_source_def ask_loop_eq Let_def
      split: option.splits pyval.splits sum.splits)

lemma rows_loop_append:
  "rows_loop E model timeout cache_dir ask_repeats (xs @ ys) w =
     (case rows_loop E model timeout cache_dir ask_repeats xs w of
        (w1, None) \<Rightarrow> rows_loop E model timeout cache_dir ask_repeats ys w1
      | (w1, Some x) \<Rightarrow> (w1, Some x))"
  by (induction xs arbitrary: w)
    (auto split: option.splits prod.splits sum.splits raised.splits)

lemma process_row_InrD:
  assumes "process_row E row model timeout cache_dir ask_repeats w = (w', Inr seconds)"
  shows "\<exists>fp code. row ''file_path'' = Some (PStr fp) \<and>
           read_text E (cache_file E cache_dir fp) = Some code"
  using assms
  by (auto simp: process_row_def read_source_def Let_def
      split: option.splits pyval.splits prod.splits)


lemma rows_loop_lines:
  "rows_loop E model timeout cache_dir ask_repeats rows w = (w', r) \<Longrightarrow>
     \<exists>lines. out_file w' = out_file w @ lines \<and> length lines \<le> length rows \<and>
       (r = None \<longrightarrow> length lines = length rows) \<and>
       (\<forall>i<length lines. \<exists>fp m seconds u u'.
          (rows ! i) ''file_path'' = Some fp \<and> (rows ! i) ''measures'' = Some m \<and>
          process_row E (rows ! i) model timeout cache_dir ask_repeats u = (u', Inr seconds) \<and>
          lines ! i = fp # m # map PInt seconds)"
proof (induction rows arbitrary: w)
  case Nil
  then show ?case by simp
next
  case (Cons row rest)
  let ?step = "process_row E row model timeout cache_dir ask_repeats w"
  show ?case
  proof (cases "\<exists>fp m seconds w1. row ''file_path'' = Some fp \<and> row ''measures'' = Some m \<and>
                  ?step = (w1, Inr seconds)")
    case True
    then obtain fp m seconds w1 where
      fp: "row ''file_path'' = Some fp" and m: "row ''measures'' = Some m" and
      step: "?step = (w1, Inr seconds)" by blast
    let ?line = "fp # m # map PInt seconds"
    let ?w2 = "w1\<lparr>out_file := out_file w1 @ [?line]\<rparr>"
    from Cons.prems fp m step
    have rest: "rows_loop E model timeout cache_dir ask_repeats rest ?w2 = (w', r)"
      by simp
    from Cons.IH[OF rest] obtain lines where
      out: "out_file w' = out_file ?w2 @ lines" and
      len: "length lines \<le> length rest" and
      fin: "r = None \<longrightarrow> length lines = length rest" and
      each: "\<forall>i<length lines. \<exists>fp m seconds u u'.
          (rest ! i) ''file_path'' = Some fp \<and> (rest ! i) ''measures'' = Some m \<and>
          process_row E (rest ! i) model timeout cache_dir ask_repeats u = (u', Inr seconds) \<and>
          lines ! i = fp # m # map PInt seconds"
      by blast
    have w1: "out_file w1 = out_file w"
      using step by (rule process_row_out_file)
    have "out_file w' = out_file w @ (?line # lines)"
      using out w1 by simp
    moreover have "length (?line # lines) \<le> length (row # rest)"
      using len by simp
    moreover have "r = None \<longrightarrow> length (?line # lines) = length (row # rest)"
      using fin by simp
    moreover have "\<forall>i<length (?line # lines). \<exists>fp m seconds u u'.
          ((row # rest) ! i) ''file_path'' = Some fp \<and> ((row # rest) ! i) ''measures'' = Some m \<and>
          process_row E ((row # rest) ! i) model timeout cache_dir ask_repeats u = (u', Inr seconds) \<and>
          (?line # lines) ! i = fp # m # map PInt seconds"
    proof (intro allI impI)
      fix i
      assume i: "i < length (?line # lines)"
      show "\<exists>fp m seconds u u'.
          ((row # rest) ! i) ''file_path'' = Some fp \<and> ((row # rest) ! i) ''measures'' = Some m \<and>
          process_row E ((row # rest) ! i) model timeout cache_dir ask_repeats u = (u', Inr seconds) \<and>
          (?line # lines) ! i = fp # m # map PInt seconds"
      proof (cases i)
        case 0
        then show ?thesis using fp m step by auto
      next
        case (Suc j)
        then have "j < length lines" using i by simp
        with each Suc show ?thesis by simp
      qed
    qed
    ultimately show ?thesis by blast
  next
    case False
    with Cons.prems have "w' = fst ?step \<or> w' = w"
      by (auto split: option.splits prod.splits sum.splits raised.splits)
    moreover have "out_file (fst ?step) = out_file w"
      using process_row_out_file[of E row model timeout cache_dir ask_repeats w "fst ?step" "snd ?step"]
      by simp
    moreover from False Cons.prems have "r \<noteq> None"
      by (auto split: option.splits prod.splits sum.splits raised.splits)
    ultimately have "out_file w' = out_file w @ []" and "r \<noteq> None" by auto
    then show ?thesis by force
  qed
qed

lemma process_rows_opened:
  assumes "csv_dict_rows E input_csv = Some rows" and "open_w E output_csv"
  shows "process_rows E input_csv output_csv model timeout cache_dir ask_repeats w =
           rows_loop E model timeout cache_dir ask_repeats rows
             (w\<lparr>out_file := [header ask_repeats]\<rparr>)"
  using assms by (simp add: process_rows_def read_input_csv_def)

lemma process_rows_lines:
  assumes "csv_dict_rows E input_csv = Some rows"
    and "open_w E output_csv"
    and "process_rows E input_csv output_csv model timeout cache_dir ask_repeats w = (w', r)"
  shows "\<exists>lines. out_file w' = header ask_repeats # lines \<and>
           length lines \<le> length rows \<and>
           (r = None \<longrightarrow> length lines = length rows) \<and>
           (\<forall>i<length lines. \<exists>fp m seconds u u'.
              (rows ! i) ''file_path'' = Some fp \<and> (rows ! i) ''measures'' = Some m \<and>
              process_row E (rows ! i) model timeout cache_dir ask_repeats u = (u', Inr seconds) \<and>
              lines ! i = fp # m # map PInt seconds)"
proof -
  from assms have "rows_loop E model timeout cache_dir ask_repeats rows
                     (w\<lparr>out_file := [header ask_repeats]\<rparr>) = (w', r)"
    by (simp add: process_rows_opened)
  from rows_loop_lines[OF this] show ?thesis
    by simp
qed




section \<open>Facts about the concrete environment\<close>

lemma foo_file_path: "row_foo ''file_path'' = Some (PStr ''Foo.java'')"
  by (simp add: row_foo_def)

lemma foo_cached:
  "read_text (demo script) (cache_file (demo script) (Path ''code_cache'') ''Foo.java'') = Some foo_source"
  by (simp add: demo_def cache_file_def demo_sha256_def demo_cache_def)

lemma bar_not_cached:
  "read_text (demo script) (cache_file (demo script) (Path ''code_cache'') ''Bar.java'') = None"
  by (simp add: demo_def cache_file_def demo_sha256_def demo_cache_def)

lemma bar_file_path: "row_bar ''file_path'' = Some (PStr ''Bar.java'')"
  by (simp add: row_bar_def)

lemma demo_open: "open_w (demo script) p"
  by (simp add: demo_def)

lemma demo_one: "csv_dict_rows (demo script) (Path ''one.csv'') = Some [row_foo]"
  by (simp add: demo_def demo_input_def)

lemma demo_two: "csv_dict_rows (demo script) (Path ''two.csv'') = Some [row_foo, row_bar]"
  by (simp add: demo_def demo_input_def)

lemma demo_no_measures:
  "csv_dict_rows (demo script) (Path ''no_measures.csv'') = Some [row_foo, row_no_measures]"
  by (simp add: demo_def demo_input_def)

lemma demo_twice: "csv_dict_rows (demo script) (Path ''twice.csv'') = Some [row_foo, row_foo]"
  by (simp add: demo_def demo_input_def)

lemma foo_measures: "row_foo ''measures'' = Some (PStr ''42'')"
  by (simp add: row_foo_def)

lemma demo_missing: "csv_dict_rows (demo script) (Path ''missing.csv'') = None"
  by (simp add: demo_def demo_input_def)

lemma no_measures_file_path: "row_no_measures ''file_path'' = Some (PStr ''Foo.java'')"
  by (simp add: row_no_measures_def)

lemma no_measures_measures: "row_no_measures ''measures'' = None"
  by (simp add: row_no_measures_def)

section \<open>The claims\<close>

subsection \<open>C1: the number of attempt results\<close>

text \<open>
  C1, as amended. For every row whose \<^verbatim>\<open>file_path\<close> is a string and whose cached content
  is read, \<^const>\<open>process_row\<close> returns a list of attempt results, whatever the inference
  service does at each attempt. Its length is \<^verbatim>\<open>max(0, ask_repeats)\<close>: the configured
  repeat count when that is not negative, and 0 when it is negative.
\<close>

theorem process_row_length:
  assumes "row ''file_path'' = Some (PStr fp)"
    and "read_text E (cache_file E cache_dir fp) = Some code"
  shows "\<exists>w' seconds.
           process_row E row model timeout cache_dir ask_repeats w = (w', Inr seconds) \<and>
           int (length seconds) = max 0 ask_repeats"
  using assms
    process_row_ok[where row = row and fp = fp and E = E and cache_dir = cache_dir
      and code = code and model = model and timeout = timeout
      and ask_repeats = ask_repeats and w = w]
  by simp

text \<open>
  The theorem at scenario A: three attempts, the third of which is refused.
\<close>

theorem process_row_length_witness:
  "row_foo ''file_path'' = Some (PStr ''Foo.java'') \<and>
   read_text (demo scenario_A) (cache_file (demo scenario_A) (Path ''code_cache'') ''Foo.java'')
     = Some foo_source \<and>
   (\<exists>w' seconds.
      process_row (demo scenario_A) row_foo ''llama3'' 180 (Path ''code_cache'') 3 w0
        = (w', Inr seconds) \<and>
      int (length seconds) = max 0 3)"
  using process_row_length[where row = row_foo and fp = "''Foo.java''"
      and E = "demo scenario_A" and cache_dir = "Path ''code_cache''" and code = foo_source
      and model = "''llama3''" and timeout = 180 and ask_repeats = 3 and w = w0]
    foo_file_path foo_cached[of scenario_A]
  by simp

text \<open>
  C1 as stated fails for a negative repeat count, which \<^verbatim>\<open>--ask-repeats -1\<close> supplies:
  \<^verbatim>\<open>range(-1)\<close> is empty, so the list returned has length 0 and not \<open>-1\<close>.
\<close>

theorem process_row_negative_repeats_counterexample:
  "read_text (demo []) (cache_file (demo []) (Path ''code_cache'') ''Foo.java'') = Some foo_source \<and>
   snd (process_row (demo []) row_foo ''llama3'' 180 (Path ''code_cache'') (- 1) w0) = Inr [] \<and>
   int (length ([] :: int list)) \<noteq> - 1"
  using foo_file_path foo_cached[of "[]"]
    process_row_ok[where row = row_foo and fp = "''Foo.java''" and E = "demo []"
      and cache_dir = "Path ''code_cache''" and code = foo_source and model = "''llama3''"
      and timeout = 180 and ask_repeats = "- 1" and w = w0]
  by simp

subsection \<open>C2: a failed attempt is recorded as \<open>-1\<close> and the loop goes on\<close>

text \<open>
  C2. For a row whose content is read, \<^const>\<open>process_row\<close> returns normally with one
  result per iteration and has sent one request per iteration. For every attempt \<open>i\<close>
  at which the inference client raises (\<^const>\<open>response_of\<close> gives an exception:
  connection error or timeout, HTTP status, unusable body) or at which the response
  fails to parse (\<^const>\<open>parse_seconds\<close> gives an exception), the value recorded at
  position \<open>i\<close> is \<open>-1\<close>, and the later attempts are made all the same. Such a failure
  ends neither the row nor the run: in the loop of \<^const>\<open>rows_loop\<close>, the line of the row
  is written with these results, and the loop goes on with the rows that follow.
\<close>

theorem failed_attempt_records_sentinel:
  assumes "row ''file_path'' = Some (PStr fp)"
    and "read_text E (cache_file E cache_dir fp) = Some code"
    and "process_row E row model timeout cache_dir ask_repeats w = (w', r)"
    and "req = build_request (PROMPT_format code) model timeout"
  shows "\<exists>seconds. r = Inr seconds \<and> length seconds = nat ask_repeats \<and>
           requests w' = requests w @ replicate (nat ask_repeats) req \<and>
           (\<forall>i<nat ask_repeats.
              ((\<exists>e. response_of E (post E (length (requests w) + i) req) = Inl e) \<or>
               (\<exists>raw e. response_of E (post E (length (requests w) + i) req) = Inr raw \<and>
                        parse_seconds E raw = Inl e))
              \<longrightarrow> seconds ! i = - 1) \<and>
           (\<forall>m rest. row ''measures'' = Some m \<longrightarrow>
              rows_loop E model timeout cache_dir ask_repeats (row # rest) w =
              rows_loop E model timeout cache_dir ask_repeats rest
                (w'\<lparr>out_file := out_file w' @ [[PStr fp, m] @ map PInt seconds]\<rparr>))"
proof -
  let ?val = "\<lambda>i. attempt_value E (length (requests w) + i) req"
  from assms
    process_row_ok[where row = row and fp = fp and E = E and cache_dir = cache_dir
      and code = code and model = model and timeout = timeout
      and ask_repeats = ask_repeats and w = w]
  have r: "r = Inr (map ?val [0..<nat ask_repeats])"
    and w': "requests w' = requests w @ replicate (nat ask_repeats) req"
    by auto
  have "\<forall>i<nat ask_repeats.
          ((\<exists>e. response_of E (post E (length (requests w) + i) req) = Inl e) \<or>
           (\<exists>raw e. response_of E (post E (length (requests w) + i) req) = Inr raw \<and>
                    parse_seconds E raw = Inl e))
          \<longrightarrow> map ?val [0..<nat ask_repeats] ! i = - 1"
    by (auto simp: attempt_value_def)
  moreover have "\<forall>m rest. row ''measures'' = Some m \<longrightarrow>
              rows_loop E model timeout cache_dir ask_repeats (row # rest) w =
              rows_loop E model timeout cache_dir ask_repeats rest
                (w'\<lparr>out_file := out_file w' @
                   [[PStr fp, m] @ map PInt (map ?val [0..<nat ask_repeats])]\<rparr>)"
    using assms(1,3) r by simp
  ultimately show ?thesis
    using r w' by simp
qed

text \<open>
  The theorem at scenario A, whose third request (number 2) is refused, for an input
  that lists \<^verbatim>\<open>Foo.java\<close> twice: the line of the first row carries the \<open>-1\<close>, the second
  row is processed (all its requests are refused) and the run completes.
\<close>

theorem failed_attempt_records_sentinel_witness:
  "row_foo ''file_path'' = Some (PStr ''Foo.java'') \<and>
   read_text (demo scenario_A) (cache_file (demo scenario_A) (Path ''code_cache'') ''Foo.java'')
     = Some foo_source \<and>
   response_of (demo scenario_A)
     (post (demo scenario_A) 2 (build_request (PROMPT_format foo_source) ''llama3'' 180))
     = Inl RequestException \<and>
   row_foo ''measures'' = Some (PStr ''42'') \<and>
   (\<exists>seconds.
      snd (process_row (demo scenario_A) row_foo ''llama3'' 180 (Path ''code_cache'') 3 w0)
        = Inr seconds \<and>
      length seconds = 3 \<and> seconds ! 2 = - 1 \<and>
      rows_loop (demo scenario_A) ''llama3'' 180 (Path ''code_cache'') 3 [row_foo, row_foo] w0 =
      rows_loop (demo scenario_A) ''llama3'' 180 (Path ''code_cache'') 3 [row_foo]
        (fst (process_row (demo scenario_A) row_foo ''llama3'' 180 (Path ''code_cache'') 3 w0)
           \<lparr>out_file := [[PStr ''Foo.java'', PStr ''42''] @ map PInt seconds]\<rparr>)) \<and>
   snd (process_rows (demo scenario_A) (Path ''twice.csv'') (Path ''out.csv'') ''llama3'' 180
          (Path ''code_cache'') 3 w0) = None \<and>
   out_file (fst (process_rows (demo scenario_A) (Path ''twice.csv'') (Path ''out.csv'')
                    ''llama3'' 180 (Path ''code_cache'') 3 w0))
     = [header 3,
        [PStr ''Foo.java'', PStr ''42'', PInt 10, PInt 8, PInt (- 1)],
        [PStr ''Foo.java'', PStr ''42'', PInt (- 1), PInt (- 1), PInt (- 1)]]"
proof -
  let ?E = "demo scenario_A"
  let ?req = "build_request (PROMPT_format foo_source) ''llama3'' 180"
  let ?step = "process_row ?E row_foo ''llama3'' 180 (Path ''code_cache'') 3 w0"
  let ?run = "process_rows ?E (Path ''twice.csv'') (Path ''out.csv'') ''llama3'' 180
                (Path ''code_cache'') 3 w0"
  have raised: "response_of ?E (post ?E 2 ?req) = Inl RequestException"
    by (simp add: demo_def scenario_A_def response_of_def)
  have step: "?step = (fst ?step, snd ?step)"
    by simp
  have "\<exists>seconds. snd ?step = Inr seconds \<and> length seconds = nat 3 \<and>
           requests (fst ?step) = requests w0 @ replicate (nat 3) ?req \<and>
           (\<forall>i<nat 3.
              ((\<exists>e. response_of ?E (post ?E (length (requests w0) + i) ?req) = Inl e) \<or>
               (\<exists>raw e. response_of ?E (post ?E (length (requests w0) + i) ?req) = Inr raw \<and>
                        parse_seconds ?E raw = Inl e))
              \<longrightarrow> seconds ! i = - 1) \<and>
           (\<forall>m rest. row_foo ''measures'' = Some m \<longrightarrow>
              rows_loop ?E ''llama3'' 180 (Path ''code_cache'') 3 (row_foo # rest) w0 =
              rows_loop ?E ''llama3'' 180 (Path ''code_cache'') 3 rest
                (fst ?step\<lparr>out_file := out_file (fst ?step) @
                    [[PStr ''Foo.java'', m] @ map PInt seconds]\<rparr>))"
    by (rule failed_attempt_records_sentinel[where row = row_foo and fp = "''Foo.java''",
          OF foo_file_path foo_cached step refl])
  then obtain seconds where r: "snd ?step = Inr seconds" and len: "length seconds = nat 3"
    and each: "\<forall>i<nat 3.
        ((\<exists>e. response_of ?E (post ?E (length (requests w0) + i) ?req) = Inl e) \<or>
         (\<exists>raw e. response_of ?E (post ?E (length (requests w0) + i) ?req) = Inr raw \<and>
                  parse_seconds ?E raw = Inl e))
        \<longrightarrow> seconds ! i = - 1"
    and goes_on: "\<forall>m rest. row_foo ''measures'' = Some m \<longrightarrow>
              rows_loop ?E ''llama3'' 180 (Path ''code_cache'') 3 (row_foo # rest) w0 =
              rows_loop ?E ''llama3'' 180 (Path ''code_cache'') 3 rest
                (fst ?step\<lparr>out_file := out_file (fst ?step) @
                    [[PStr ''Foo.java'', m] @ map PInt seconds]\<rparr>)"
    by blast
  have "\<exists>e. response_of ?E (post ?E (length (requests w0) + 2) ?req) = Inl e"
    by (simp add: demo_def scenario_A_def response_of_def w0_def)
  moreover have "2 < nat 3"
    by simp
  ultimately have sentinel: "seconds ! 2 = - 1"
    using each by blast
  have "out_file (fst ?step) = out_file w0"
    using step by (rule process_row_out_file)
  then have empty: "out_file (fst ?step) = []"
    by (simp add: w0_def)
  from goes_on foo_measures empty
  have next_row: "rows_loop ?E ''llama3'' 180 (Path ''code_cache'') 3 [row_foo, row_foo] w0 =
      rows_loop ?E ''llama3'' 180 (Path ''code_cache'') 3 [row_foo]
        (fst ?step\<lparr>out_file := [[PStr ''Foo.java'', PStr ''42''] @ map PInt seconds]\<rparr>)"
    by simp
  have fin: "snd ?run = None"
    by code_simp
  have lines: "out_file (fst ?run)
     = [header 3,
        [PStr ''Foo.java'', PStr ''42'', PInt 10, PInt 8, PInt (- 1)],
        [PStr ''Foo.java'', PStr ''42'', PInt (- 1), PInt (- 1), PInt (- 1)]]"
    by code_simp
  from r len sentinel next_row have
    "\<exists>seconds. snd ?step = Inr seconds \<and> length seconds = 3 \<and> seconds ! 2 = - 1 \<and>
      rows_loop ?E ''llama3'' 180 (Path ''code_cache'') 3 [row_foo, row_foo] w0 =
      rows_loop ?E ''llama3'' 180 (Path ''code_cache'') 3 [row_foo]
        (fst ?step\<lparr>out_file := [[PStr ''Foo.java'', PStr ''42''] @ map PInt seconds]\<rparr>)"
    by auto
  with raised fin lines foo_file_path foo_measures foo_cached[of scenario_A] show ?thesis
    by blast
qed

subsection \<open>C3: a row whose content cannot be read ends the run\<close>

text \<open>
  C3. Let the run have read the input and opened the output, and let the rows before
  \<open>row\<close> have been processed (the loop over them ends normally, in the world \<open>w1\<close>).
  If the cached file of \<open>row\<close> cannot be read, the run ends with \<^verbatim>\<open>sys.exit(1)\<close>, a
  status that is not zero, and the output file is the one of \<open>w1\<close>: the header and one
  line for each of the prior rows, with no line for \<open>row\<close>.
\<close>

theorem content_failure_aborts:
  assumes "csv_dict_rows E input_csv = Some (prior @ row # rest)"
    and "open_w E output_csv"
    and "rows_loop E model timeout cache_dir ask_repeats prior
           (w\<lparr>out_file := [header ask_repeats]\<rparr>) = (w1, None)"
    and "row ''file_path'' = Some (PStr fp)"
    and "read_text E (cache_file E cache_dir fp) = None"
  shows "\<exists>w2 r.
           process_rows E input_csv output_csv model timeout cache_dir ask_repeats w = (w2, r) \<and>
           r = Some (SystemExit 1) \<and> exit_status r \<noteq> 0 \<and>
           out_file w2 = out_file w1 \<and>
           (\<exists>lines. out_file w2 = header ask_repeats # lines \<and> length lines = length prior)"
proof -
  let ?w0 = "w\<lparr>out_file := [header ask_repeats]\<rparr>"
  have step: "process_row E row model timeout cache_dir ask_repeats w1 =
                (w1\<lparr>reads := reads w1 @ [cache_file E cache_dir fp]\<rparr>, Inl (SystemExit 1))"
    using assms(4,5)
      process_row_unreadable[where row = row and fp = fp and E = E and cache_dir = cache_dir
        and model = model and timeout = timeout and ask_repeats = ask_repeats and w = w1]
    by simp
  have run: "process_rows E input_csv output_csv model timeout cache_dir ask_repeats w =
               (w1\<lparr>reads := reads w1 @ [cache_file E cache_dir fp]\<rparr>, Some (SystemExit 1))"
    using assms(1-4) step
    by (simp add: process_rows_opened rows_loop_append)
  from rows_loop_lines[OF assms(3)] obtain lines where
    "out_file w1 = out_file ?w0 @ lines" and "length lines = length prior"
    by auto
  then have "out_file w1 = header ask_repeats # lines \<and> length lines = length prior"
    by simp
  with run show ?thesis by simp
qed

text \<open>
  The theorem at scenario B: two rows, the cache file of the second one is missing. The
  output file held a stale line before the run.
\<close>

theorem content_failure_aborts_witness:
  "csv_dict_rows (demo scenario_A) (Path ''two.csv'') = Some ([row_foo] @ row_bar # []) \<and>
   open_w (demo scenario_A) (Path ''out.csv'') \<and>
   snd (rows_loop (demo scenario_A) ''llama3'' 180 (Path ''code_cache'') 3 [row_foo]
          (w_stale\<lparr>out_file := [header 3]\<rparr>)) = None \<and>
   row_bar ''file_path'' = Some (PStr ''Bar.java'') \<and>
   read_text (demo scenario_A) (cache_file (demo scenario_A) (Path ''code_cache'') ''Bar.java'')
     = None \<and>
   snd (process_rows (demo scenario_A) (Path ''two.csv'') (Path ''out.csv'') ''llama3'' 180
          (Path ''code_cache'') 3 w_stale) = Some (SystemExit 1) \<and>
   out_file (fst (process_rows (demo scenario_A) (Path ''two.csv'') (Path ''out.csv'') ''llama3''
                    180 (Path ''code_cache'') 3 w_stale))
     = [header 3, [PStr ''Foo.java'', PStr ''42'', PInt 10, PInt 8, PInt (- 1)]]"
proof -
  let ?E = "demo scenario_A"
  let ?prior = "rows_loop ?E ''llama3'' 180 (Path ''code_cache'') 3 [row_foo]
                  (w_stale\<lparr>out_file := [header 3]\<rparr>)"
  have input: "csv_dict_rows ?E (Path ''two.csv'') = Some ([row_foo] @ row_bar # [])"
    by (simp add: demo_two)
  have fin: "snd ?prior = None"
    by code_simp
  then have prior: "?prior = (fst ?prior, None)"
    by (metis prod.collapse)
  have lines: "out_file (fst ?prior)
                 = [header 3, [PStr ''Foo.java'', PStr ''42'', PInt 10, PInt 8, PInt (- 1)]]"
    by code_simp
  have "\<exists>w2 r.
          process_rows ?E (Path ''two.csv'') (Path ''out.csv'') ''llama3'' 180
            (Path ''code_cache'') 3 w_stale = (w2, r) \<and>
          r = Some (SystemExit 1) \<and> exit_status r \<noteq> 0 \<and>
          out_file w2 = out_file (fst ?prior) \<and>
          (\<exists>lines. out_file w2 = header 3 # lines \<and> length lines = length [row_foo])"
    by (rule content_failure_aborts[where rest = "[]" and fp = "''Bar.java''",
          OF input demo_open prior bar_file_path bar_not_cached])
  then obtain w2 r where
    "process_rows ?E (Path ''two.csv'') (Path ''out.csv'') ''llama3'' 180
       (Path ''code_cache'') 3 w_stale = (w2, r)"
    and "r = Some (SystemExit 1)" and "out_file w2 = out_file (fst ?prior)"
    by blast
  with lines input fin bar_file_path bar_not_cached[of scenario_A] demo_open[of scenario_A]
  show ?thesis
    by simp
qed

subsection \<open>C4: the values of the attempt columns\<close>




subsection \<open>C5: malformed responses\<close>

text \<open>
  C5, as amended. When the client returns a text \<open>raw\<close> at attempt \<open>i\<close> and that text is
  not valid JSON, or it decodes to a value without a \<^verbatim>\<open>seconds\<close> field (not an object,
  or an object without the key), or its \<^verbatim>\<open>seconds\<close> field is a value that \<^verbatim>\<open>int\<close> cannot
  convert, the value recorded at position \<open>i\<close> is \<open>-1\<close>. By \<^const>\<open>py_int\<close>, the values
  that \<^verbatim>\<open>int\<close> cannot convert are \<^verbatim>\<open>null\<close>, arrays, objects, NaN and the infinities, and
  the strings that are not integer literals.
\<close>

theorem malformed_response_records_sentinel:
  assumes "row ''file_path'' = Some (PStr fp)"
    and "read_text E (cache_file E cache_dir fp) = Some code"
    and "process_row E row model timeout cache_dir ask_repeats w = (w', r)"
    and "i < nat ask_repeats"
    and "response_of E (post E (length (requests w) + i)
           (build_request (PROMPT_format code) model timeout)) = Inr raw"
    and "json_loads E (strip raw) = None \<or>
         (\<exists>output. json_loads E (strip raw) = Some output \<and>
            ((\<exists>e. subscript output ''seconds'' = Inl e) \<or>
             (\<exists>field e. subscript output ''seconds'' = Inr field \<and> py_int E field = Inl e)))"
  shows "\<exists>seconds. r = Inr seconds \<and> length seconds = nat ask_repeats \<and> seconds ! i = - 1"
proof -
  let ?req = "build_request (PROMPT_format code) model timeout"
  from assms(6) have "\<exists>e. parse_seconds E raw = Inl e"
    by (auto simp: parse_seconds_def)
  with assms(5) have "attempt_value E (length (requests w) + i) ?req = - 1"
    by (auto simp: attempt_value_def)
  with assms(1-4)
    process_row_ok[where row = row and fp = fp and E = E and cache_dir = cache_dir
      and code = code and model = model and timeout = timeout
      and ask_repeats = ask_repeats and w = w]
  show ?thesis
    by auto
qed

text \<open>
  The theorem at scenario C: the one response is the text \<^verbatim>\<open>not json\<close>.
\<close>

theorem malformed_response_records_sentinel_witness:
  "row_foo ''file_path'' = Some (PStr ''Foo.java'') \<and>
   read_text (demo scenario_C) (cache_file (demo scenario_C) (Path ''code_cache'') ''Foo.java'')
     = Some foo_source \<and>
   response_of (demo scenario_C)
     (post (demo scenario_C) 0 (build_request (PROMPT_format foo_source) ''llama3'' 180))
     = Inr ''not json'' \<and>
   json_loads (demo scenario_C) (strip ''not json'') = None \<and>
   (\<exists>seconds.
      snd (process_row (demo scenario_C) row_foo ''llama3'' 180 (Path ''code_cache'') 1 w0)
        = Inr seconds \<and>
      length seconds = 1 \<and> seconds ! 0 = - 1)"
proof -
  let ?E = "demo scenario_C"
  let ?req = "build_request (PROMPT_format foo_source) ''llama3'' 180"
  let ?run = "process_row ?E row_foo ''llama3'' 180 (Path ''code_cache'') 1 w0"
  have run: "?run = (fst ?run, snd ?run)"
    by simp
  have i: "0 < nat 1"
    by simp
  have raw0: "response_of ?E (post ?E 0 ?req) = Inr ''not json''"
    by code_simp
  have raw: "response_of ?E (post ?E (length (requests w0) + 0) ?req) = Inr ''not json''"
    using raw0 by (simp add: w0_def)
  have bad: "json_loads ?E (strip ''not json'') = None"
    by code_simp
  then have malformed: "json_loads ?E (strip ''not json'') = None \<or>
         (\<exists>output. json_loads ?E (strip ''not json'') = Some output \<and>
            ((\<exists>e. subscript output ''seconds'' = Inl e) \<or>
             (\<exists>field e. subscript output ''seconds'' = Inr field \<and> py_int ?E field = Inl e)))"
    by simp
  have "\<exists>seconds. snd ?run = Inr seconds \<and> length seconds = nat 1 \<and> seconds ! 0 = - 1"
    by (rule malformed_response_records_sentinel[where row = row_foo and fp = "''Foo.java''",
          OF foo_file_path foo_cached run i raw malformed])
  with raw0 bad foo_file_path foo_cached[of scenario_C] show ?thesis
    by simp
qed

text \<open>
  C5 as stated fails for a \<^verbatim>\<open>seconds\<close> field that is not an integer but that \<^verbatim>\<open>int\<close>
  converts: for \<^verbatim>\<open>{"seconds": 3.5}\<close> the value recorded is \<^verbatim>\<open>int(3.5)\<close>, which is 3.
\<close>

theorem float_estimate_truncated_counterexample:
  "json_loads (demo scenario_float) ''{\"seconds\": 3.5}''
     = Some (JObject [(''seconds'', JFloat (Finite 7 (- 1)))]) \<and>
   snd (process_row (demo scenario_float) row_foo ''llama3'' 180 (Path ''code_cache'') 1 w0)
     = Inr [3] \<and>
   (3 :: int) \<noteq> - 1"
  by code_simp

subsection \<open>C6: the cache file of a row\<close>

text \<open>
  C6. \<^const>\<open>cache_file\<close> is a function of the hash function, the cache directory and the
  \<^verbatim>\<open>file_path\<close>, so that the same \<^verbatim>\<open>file_path\<close> always gives the same file name. The one
  file that \<^const>\<open>process_row\<close> reads for a row with the path \<open>fp\<close> is the file of the
  cache directory named by the hex digest of \<open>fp\<close>, with the extension \<^verbatim>\<open>.txt\<close>; what
  the row does next depends on that file alone (exit when it cannot be read, prompts
  built from its content otherwise); and any other row with the same \<^verbatim>\<open>file_path\<close>
  reads the same file, whatever the other arguments are.
\<close>

theorem cache_file_read:
  assumes "row ''file_path'' = Some (PStr fp)"
    and "process_row E row model timeout cache_dir ask_repeats w = (w', r)"
  shows "reads w' = reads w @ [Child cache_dir (sha256_hex E fp @ ''.txt'')] \<and>
         (case read_text E (Child cache_dir (sha256_hex E fp @ ''.txt'')) of
            None \<Rightarrow> r = Inl (SystemExit 1)
          | Some code \<Rightarrow>
              (\<exists>seconds. r = Inr seconds) \<and>
              requests w' = requests w @
                replicate (nat ask_repeats) (build_request (PROMPT_format code) model timeout)) \<and>
         (\<forall>row2 model2 timeout2 repeats2 w2.
            row2 ''file_path'' = Some (PStr fp) \<longrightarrow>
            reads (fst (process_row E row2 model2 timeout2 cache_dir repeats2 w2)) =
              reads w2 @ [Child cache_dir (sha256_hex E fp @ ''.txt'')])"
proof -
  have any: "reads (fst (process_row E row2 model2 timeout2 cache_dir repeats2 w2)) =
               reads w2 @ [Child cache_dir (sha256_hex E fp @ ''.txt'')]"
    if "row2 ''file_path'' = Some (PStr fp)" for row2 model2 timeout2 repeats2 w2
    using that
    by (simp add: process_row_def read_source_def ask_loop_eq cache_file_def Let_def
        split: option.splits)
  have "reads w' = reads w @ [Child cache_dir (sha256_hex E fp @ ''.txt'')]"
    using any[of row model timeout ask_repeats w] assms by simp
  moreover have "case read_text E (Child cache_dir (sha256_hex E fp @ ''.txt'')) of
            None \<Rightarrow> r = Inl (SystemExit 1)
          | Some code \<Rightarrow>
              (\<exists>seconds. r = Inr seconds) \<and>
              requests w' = requests w @
                replicate (nat ask_repeats) (build_request (PROMPT_format code) model timeout)"
    using assms
    by (auto simp: process_row_def read_source_def ask_loop_eq cache_file_def Let_def
        split: option.splits)
  ultimately show ?thesis
    using any by blast
qed

text \<open>
  The theorem for \<^verbatim>\<open>Foo.java\<close>, with its SHA-256 digest.
\<close>

theorem cache_file_read_witness:
  "row_foo ''file_path'' = Some (PStr ''Foo.java'') \<and>
   sha256_hex (demo scenario_A) ''Foo.java''
     = ''d85722b36e339bb4254137d0747507d93a3d39affc81f4d92fa20196d26d66c2'' \<and>
   reads (fst (process_row (demo scenario_A) row_foo ''llama3'' 180 (Path ''code_cache'') 3 w0))
     = [Child (Path ''code_cache'')
          ''d85722b36e339bb4254137d0747507d93a3d39affc81f4d92fa20196d26d66c2.txt'']"
proof -
  let ?run = "process_row (demo scenario_A) row_foo ''llama3'' 180 (Path ''code_cache'') 3 w0"
  have run: "?run = (fst ?run, snd ?run)"
    by simp
  have sha: "sha256_hex (demo scenario_A) ''Foo.java''
               = ''d85722b36e339bb4254137d0747507d93a3d39affc81f4d92fa20196d26d66c2''"
    by (simp add: demo_def demo_sha256_def)
  from cache_file_read[where row = row_foo and fp = "''Foo.java''", OF foo_file_path run]
  have "reads (fst ?run) =
          reads w0 @ [Child (Path ''code_cache'') (sha256_hex (demo scenario_A) ''Foo.java'' @ ''.txt'')]"
    by blast
  with sha foo_file_path show ?thesis
    by (simp add: w0_def)
qed

subsection \<open>C7: the prompt\<close>

text \<open>
  C7. \<^const>\<open>PROMPT_format\<close> is a function of the source text alone: the same text gives
  the same prompt (and different texts give different prompts). The requests that
  \<^const>\<open>process_row\<close> sends for a row are \<^verbatim>\<open>ask_repeats\<close> copies of one request, each
  carrying the prompt built from the content read for the row.
\<close>

theorem prompt_identical_across_repeats:
  assumes "row ''file_path'' = Some (PStr fp)"
    and "read_text E (cache_file E cache_dir fp) = Some code"
    and "process_row E row model timeout cache_dir ask_repeats w = (w', r)"
  shows "requests w' = requests w @
           replicate (nat ask_repeats) (build_request (PROMPT_format code) model timeout) \<and>
         (\<forall>q \<in> set (drop (length (requests w)) (requests w')).
            pl_prompt (req_json q) = PROMPT_format code) \<and>
         (\<forall>code2. code2 = code \<longrightarrow> PROMPT_format code2 = PROMPT_format code) \<and>
         (\<forall>code2. PROMPT_format code2 = PROMPT_format code \<longrightarrow> code2 = code)"
proof -
  from assms
    process_row_ok[where row = row and fp = fp and E = E and cache_dir = cache_dir
      and code = code and model = model and timeout = timeout
      and ask_repeats = ask_repeats and w = w]
  have sent: "requests w' = requests w @
           replicate (nat ask_repeats) (build_request (PROMPT_format code) model timeout)"
    by auto
  then have "\<forall>q \<in> set (drop (length (requests w)) (requests w')).
            pl_prompt (req_json q) = PROMPT_format code"
    by (simp add: build_request_def)
  moreover have "\<forall>code2. PROMPT_format code2 = PROMPT_format code \<longrightarrow> code2 = code"
    by (simp add: PROMPT_format_def)
  ultimately show ?thesis
    using sent by blast
qed

text \<open>
  The theorem at scenario A: three identical requests.
\<close>

theorem prompt_identical_across_repeats_witness:
  "row_foo ''file_path'' = Some (PStr ''Foo.java'') \<and>
   read_text (demo scenario_A) (cache_file (demo scenario_A) (Path ''code_cache'') ''Foo.java'')
     = Some foo_source \<and>
   requests (fst (process_row (demo scenario_A) row_foo ''llama3'' 180 (Path ''code_cache'') 3 w0))
     = replicate 3 (build_request (PROMPT_format foo_source) ''llama3'' 180) \<and>
   PROMPT_format foo_source = PROMPT_head @ ''class Foo { int size() { return 0; } }'' @ PROMPT_tail"
proof -
  let ?run = "process_row (demo scenario_A) row_foo ''llama3'' 180 (Path ''code_cache'') 3 w0"
  have run: "?run = (fst ?run, snd ?run)"
    by simp
  from prompt_identical_across_repeats[where row = row_foo and fp = "''Foo.java''",
      OF foo_file_path foo_cached run]
  have "requests (fst ?run) = requests w0 @
          replicate (nat 3) (build_request (PROMPT_format foo_source) ''llama3'' 180)"
    by blast
  then have "requests (fst ?run)
               = replicate 3 (build_request (PROMPT_format foo_source) ''llama3'' 180)"
    by (simp add: w0_def)
  with foo_file_path foo_cached[of scenario_A] show ?thesis
    by (simp add: PROMPT_format_def foo_source_def)
qed

subsection \<open>C8: the output lines carry the input values, in the input order\<close>

text \<open>
  C8. After a run that read the input and opened the output, the output file is the
  header followed by lines of which the \<open>i\<close>-th comes from the \<open>i\<close>-th input row: its
  first cell is the row's \<^verbatim>\<open>file_path\<close> value and its second cell the row's
  \<^verbatim>\<open>measures\<close> value, both as they were read, followed by the attempt results. When the
  run completes, every input row has its line.
\<close>

theorem output_lines_pass_through:
  assumes "csv_dict_rows E input_csv = Some rows"
    and "open_w E output_csv"
    and "process_rows E input_csv output_csv model timeout cache_dir ask_repeats w = (w', r)"
  shows "\<exists>lines. out_file w' = header ask_repeats # lines \<and>
           length lines \<le> length rows \<and>
           (r = None \<longrightarrow> length lines = length rows) \<and>
           (\<forall>i<length lines. \<exists>fp m seconds.
              (rows ! i) ''file_path'' = Some fp \<and> (rows ! i) ''measures'' = Some m \<and>
              lines ! i = [fp, m] @ map PInt seconds)"
proof -
  from process_rows_lines[OF assms] obtain lines where
    out: "out_file w' = header ask_repeats # lines" and
    len: "length lines \<le> length rows" and
    fin: "r = None \<longrightarrow> length lines = length rows" and
    each: "\<forall>i<length lines. \<exists>fp m seconds u u'.
          (rows ! i) ''file_path'' = Some fp \<and> (rows ! i) ''measures'' = Some m \<and>
          process_row E (rows ! i) model timeout cache_dir ask_repeats u = (u', Inr seconds) \<and>
          lines ! i = fp # m # map PInt seconds"
    by blast
  from each have "\<forall>i<length lines. \<exists>fp m seconds.
          (rows ! i) ''file_path'' = Some fp \<and> (rows ! i) ''measures'' = Some m \<and>
          lines ! i = [fp, m] @ map PInt seconds"
    by (simp, blast)
  with out len fin show ?thesis
    by blast
qed

text \<open>
  The theorem at scenario A, which completes with the one line of \<^verbatim>\<open>Foo.java\<close>.
\<close>

theorem output_lines_pass_through_witness:
  "csv_dict_rows (demo scenario_A) (Path ''one.csv'') = Some [row_foo] \<and>
   open_w (demo scenario_A) (Path ''out.csv'') \<and>
   snd (process_rows (demo scenario_A) (Path ''one.csv'') (Path ''out.csv'') ''llama3'' 180
          (Path ''code_cache'') 3 w0) = None \<and>
   (\<exists>lines.
      out_file (fst (process_rows (demo scenario_A) (Path ''one.csv'') (Path ''out.csv'')
                       ''llama3'' 180 (Path ''code_cache'') 3 w0)) = header 3 # lines \<and>
      length lines = length [row_foo] \<and>
      (\<forall>i<length lines. \<exists>fp m seconds.
         ([row_foo] ! i) ''file_path'' = Some fp \<and> ([row_foo] ! i) ''measures'' = Some m \<and>
         lines ! i = [fp, m] @ map PInt seconds))"
proof -
  let ?run = "process_rows (demo scenario_A) (Path ''one.csv'') (Path ''out.csv'') ''llama3'' 180
                (Path ''code_cache'') 3 w0"
  have fin: "snd ?run = None"
    by code_simp
  have run: "?run = (fst ?run, snd ?run)"
    by simp
  from output_lines_pass_through[OF demo_one demo_open run] fin
  have "\<exists>lines.
      out_file (fst ?run) = header 3 # lines \<and>
      length lines = length [row_foo] \<and>
      (\<forall>i<length lines. \<exists>fp m seconds.
         ([row_foo] ! i) ''file_path'' = Some fp \<and> ([row_foo] ! i) ''measures'' = Some m \<and>
         lines ! i = [fp, m] @ map PInt seconds)"
    by auto
  with fin demo_one[of scenario_A] demo_open[of scenario_A] show ?thesis
    by blast
qed

subsection \<open>C9: the output file is truncated when it is opened\<close>

text \<open>
  C9, as amended. For a run that read the input CSV and opened the output file, the
  result does not depend on what the output file held before: the run from a world
  with the old content \<open>old\<close> is the run from the world with an empty output file, and
  the output file afterwards is the header followed by the lines of this run, at most
  one per input row. Nothing is appended to the output of a previous run.
\<close>

theorem output_truncated_on_open:
  assumes "csv_dict_rows E input_csv = Some rows"
    and "open_w E output_csv"
  shows "process_rows E input_csv output_csv model timeout cache_dir ask_repeats
           (w\<lparr>out_file := old\<rparr>) =
         process_rows E input_csv output_csv model timeout cache_dir ask_repeats
           (w\<lparr>out_file := []\<rparr>) \<and>
         (\<exists>lines.
            out_file (fst (process_rows E input_csv output_csv model timeout cache_dir ask_repeats
                             (w\<lparr>out_file := old\<rparr>))) = header ask_repeats # lines \<and>
            length lines \<le> length rows)"
proof -
  let ?run = "process_rows E input_csv output_csv model timeout cache_dir ask_repeats
                (w\<lparr>out_file := old\<rparr>)"
  have "?run = (fst ?run, snd ?run)"
    by simp
  from process_rows_lines[OF assms this] obtain lines where
    "out_file (fst ?run) = header ask_repeats # lines" and "length lines \<le> length rows"
    by blast
  then show ?thesis
    using assms by (simp add: process_rows_opened)
qed

text \<open>
  The theorem for an output file that held a stale line.
\<close>

theorem output_truncated_on_open_witness:
  "csv_dict_rows (demo scenario_A) (Path ''one.csv'') = Some [row_foo] \<and>
   open_w (demo scenario_A) (Path ''out.csv'') \<and>
   process_rows (demo scenario_A) (Path ''one.csv'') (Path ''out.csv'') ''llama3'' 180
     (Path ''code_cache'') 3 (w0\<lparr>out_file := [[PStr ''stale'']]\<rparr>) =
   process_rows (demo scenario_A) (Path ''one.csv'') (Path ''out.csv'') ''llama3'' 180
     (Path ''code_cache'') 3 (w0\<lparr>out_file := []\<rparr>) \<and>
   (\<exists>lines.
      out_file (fst (process_rows (demo scenario_A) (Path ''one.csv'') (Path ''out.csv'')
                       ''llama3'' 180 (Path ''code_cache'') 3
                       (w0\<lparr>out_file := [[PStr ''stale'']]\<rparr>))) = header 3 # lines \<and>
      length lines \<le> length [row_foo])"
  using output_truncated_on_open[where E = "demo scenario_A" and input_csv = "Path ''one.csv''"
      and rows = "[row_foo]" and output_csv = "Path ''out.csv''" and model = "''llama3''"
      and timeout = 180 and cache_dir = "Path ''code_cache''" and ask_repeats = 3
      and w = w0 and old = "[[PStr ''stale'']]"]
    demo_one[of scenario_A] demo_open[of scenario_A "Path ''out.csv''"]
  by blast

text \<open>
  C9 as stated ("after any run") fails for a run whose input CSV cannot be read:
  \<^const>\<open>read_input_csv\<close> exits before the output file is opened, and the file keeps the
  content of the earlier run.
\<close>

theorem unreadable_input_keeps_output_counterexample:
  "csv_dict_rows (demo scenario_A) (Path ''missing.csv'') = None \<and>
   process_rows (demo scenario_A) (Path ''missing.csv'') (Path ''out.csv'') ''llama3'' 180
     (Path ''code_cache'') 3 w_stale = (w_stale, Some (SystemExit 1)) \<and>
   out_file w_stale = [[PStr ''stale'']] \<and>
   hd (out_file w_stale) \<noteq> header 3"
  by (simp add: demo_missing process_rows_def read_input_csv_def w_stale_def w0_def header_def)

subsection \<open>C10: a row without a \<^verbatim>\<open>measures\<close> column\<close>

text \<open>
  C10. Let the run have read the input and opened the output, and let the rows before
  \<open>row\<close> have been processed. If \<open>row\<close> has a \<^verbatim>\<open>file_path\<close> column and no \<^verbatim>\<open>measures\<close>
  column, the run ends with \<^verbatim>\<open>sys.exit(1)\<close>, status 1, and no line is written for the
  row. The lookup of \<^verbatim>\<open>measures\<close> is evaluated only when \<^const>\<open>process_row\<close> has returned,
  and then all \<^verbatim>\<open>ask_repeats\<close> attempts of the row have been made: the result has one
  value per attempt and the world at the exit holds the requests of all of them.
\<close>

theorem missing_measures_fails_after_attempts:
  assumes "csv_dict_rows E input_csv = Some (prior @ row # rest)"
    and "open_w E output_csv"
    and "rows_loop E model timeout cache_dir ask_repeats prior
           (w\<lparr>out_file := [header ask_repeats]\<rparr>) = (w1, None)"
    and "row ''file_path'' = Some v"
    and "row ''measures'' = None"
  shows "\<exists>w2 r.
           process_rows E input_csv output_csv model timeout cache_dir ask_repeats w = (w2, r) \<and>
           r = Some (SystemExit 1) \<and> exit_status r = 1 \<and>
           out_file w2 = out_file w1 \<and>
           (\<forall>u seconds.
              process_row E row model timeout cache_dir ask_repeats w1 = (u, Inr seconds) \<longrightarrow>
              w2 = u \<and> length seconds = nat ask_repeats \<and>
              (\<exists>code. requests w2 = requests w1 @
                 replicate (nat ask_repeats) (build_request (PROMPT_format code) model timeout)))"
proof -
  let ?run = "process_rows E input_csv output_csv model timeout cache_dir ask_repeats w"
  obtain u res where
    step: "process_row E row model timeout cache_dir ask_repeats w1 = (u, res)"
    by fastforce
  have run: "?run = rows_loop E model timeout cache_dir ask_repeats (row # rest) w1"
    using assms(1-3) by (simp add: process_rows_opened rows_loop_append)
  have out: "out_file u = out_file w1"
    using step by (rule process_row_out_file)
  have res: "?run = (u, Some (SystemExit 1))"
  proof (cases res)
    case (Inl x)
    with step have "x = SystemExit 1 \<or> (\<exists>e. x = Exc e)"
      by (auto simp: process_row_def read_source_def Let_def
          split: option.splits pyval.splits prod.splits)
    with Inl step run assms(4) show ?thesis
      by auto
  next
    case (Inr seconds)
    with step run assms(4,5) show ?thesis
      by simp
  qed
  have all: "\<forall>u' seconds.
               process_row E row model timeout cache_dir ask_repeats w1 = (u', Inr seconds) \<longrightarrow>
               u = u' \<and> length seconds = nat ask_repeats \<and>
               (\<exists>code. requests u = requests w1 @
                  replicate (nat ask_repeats) (build_request (PROMPT_format code) model timeout))"
  proof (intro allI impI)
    fix u' seconds
    assume ok: "process_row E row model timeout cache_dir ask_repeats w1 = (u', Inr seconds)"
    from process_row_InrD[OF ok] obtain fp code where
      fp: "row ''file_path'' = Some (PStr fp)" and
      code: "read_text E (cache_file E cache_dir fp) = Some code"
      by blast
    from ok fp code
      process_row_ok[where row = row and fp = fp and E = E and cache_dir = cache_dir
        and code = code and model = model and timeout = timeout
        and ask_repeats = ask_repeats and w = w1]
    have "length seconds = nat ask_repeats" and
      "requests u' = requests w1 @
         replicate (nat ask_repeats) (build_request (PROMPT_format code) model timeout)"
      by auto
    with ok step show "u = u' \<and> length seconds = nat ask_repeats \<and>
               (\<exists>code. requests u = requests w1 @
                  replicate (nat ask_repeats) (build_request (PROMPT_format code) model timeout))"
      by auto
  qed
  have "exit_status (Some (SystemExit 1)) = 1"
    by simp
  with res out all show ?thesis
    by blast
qed

text \<open>
  The theorem for an input whose second row has no \<^verbatim>\<open>measures\<close>: the three requests of
  the first row and the three of the second have been sent when the run exits.
\<close>

theorem missing_measures_fails_after_attempts_witness:
  "csv_dict_rows (demo scenario_A) (Path ''no_measures.csv'')
     = Some ([row_foo] @ row_no_measures # []) \<and>
   open_w (demo scenario_A) (Path ''out.csv'') \<and>
   snd (rows_loop (demo scenario_A) ''llama3'' 180 (Path ''code_cache'') 3 [row_foo]
          (w0\<lparr>out_file := [header 3]\<rparr>)) = None \<and>
   row_no_measures ''file_path'' = Some (PStr ''Foo.java'') \<and>
   row_no_measures ''measures'' = None \<and>
   snd (process_rows (demo scenario_A) (Path ''no_measures.csv'') (Path ''out.csv'') ''llama3''
          180 (Path ''code_cache'') 3 w0) = Some (SystemExit 1) \<and>
   out_file (fst (process_rows (demo scenario_A) (Path ''no_measures.csv'') (Path ''out.csv'')
                    ''llama3'' 180 (Path ''code_cache'') 3 w0))
     = [header 3, [PStr ''Foo.java'', PStr ''42'', PInt 10, PInt 8, PInt (- 1)]] \<and>
   length (requests (fst (process_rows (demo scenario_A) (Path ''no_measures.csv'')
                            (Path ''out.csv'') ''llama3'' 180 (Path ''code_cache'') 3 w0))) = 6"
proof -
  let ?E = "demo scenario_A"
  let ?prior = "rows_loop ?E ''llama3'' 180 (Path ''code_cache'') 3 [row_foo]
                  (w0\<lparr>out_file := [header 3]\<rparr>)"
  let ?step = "process_row ?E row_no_measures ''llama3'' 180 (Path ''code_cache'') 3 (fst ?prior)"
  have input: "csv_dict_rows ?E (Path ''no_measures.csv'') = Some ([row_foo] @ row_no_measures # [])"
    by (simp add: demo_no_measures)
  have fin: "snd ?prior = None"
    by code_simp
  then have prior: "?prior = (fst ?prior, None)"
    by (metis prod.collapse)
  have lines: "out_file (fst ?prior)
                 = [header 3, [PStr ''Foo.java'', PStr ''42'', PInt 10, PInt 8, PInt (- 1)]]"
    by code_simp
  have sent: "length (requests (fst ?prior)) = 3"
    by code_simp
  have step: "?step = (fst ?step, Inr (map (\<lambda>i. attempt_value ?E (length (requests (fst ?prior)) + i)
                  (build_request (PROMPT_format foo_source) ''llama3'' 180)) [0..<nat 3]))"
    using process_row_ok[where row = row_no_measures and fp = "''Foo.java''" and E = ?E
        and cache_dir = "Path ''code_cache''" and code = foo_source and model = "''llama3''"
        and timeout = 180 and ask_repeats = 3 and w = "fst ?prior"]
      no_measures_file_path foo_cached[of scenario_A]
    by simp
  have "\<exists>w2 r.
          process_rows ?E (Path ''no_measures.csv'') (Path ''out.csv'') ''llama3'' 180
            (Path ''code_cache'') 3 w0 = (w2, r) \<and>
          r = Some (SystemExit 1) \<and> exit_status r = 1 \<and>
          out_file w2 = out_file (fst ?prior) \<and>
          (\<forall>u seconds.
              process_row ?E row_no_measures ''llama3'' 180 (Path ''code_cache'') 3 (fst ?prior)
                = (u, Inr seconds) \<longrightarrow>
              w2 = u \<and> length seconds = nat 3 \<and>
              (\<exists>code. requests w2 = requests (fst ?prior) @
                 replicate (nat 3) (build_request (PROMPT_format code) ''llama3'' 180)))"
    by (rule missing_measures_fails_after_attempts[where rest = "[]" and v = "PStr ''Foo.java''",
          OF input demo_open prior no_measures_file_path no_measures_measures])
  then obtain w2 r code where
    run: "process_rows ?E (Path ''no_measures.csv'') (Path ''out.csv'') ''llama3'' 180
       (Path ''code_cache'') 3 w0 = (w2, r)"
    and r: "r = Some (SystemExit 1)" and out: "out_file w2 = out_file (fst ?prior)"
    and req: "requests w2 = requests (fst ?prior) @
                 replicate (nat 3) (build_request (PROMPT_format code) ''llama3'' 180)"
    using step by metis
  from req sent have "length (requests w2) = 6"
    by simp
  with run r out lines input fin no_measures_file_path no_measures_measures
    demo_open[of scenario_A]
  show ?thesis
    by simp
qed

end
